theory Spec2Isabelle
  imports Complex_Main "HOL-Library.Word" "HOL-Library.Signed_Division" "HOL-Library.Sublist"
begin

unbundle bit_operations_syntax

section \<open>The search core of dragontooth (search/search.go)\<close>

text \<open>
  The embedding follows \<^verbatim>\<open>search/search.go\<close>. Go's \<^verbatim>\<open>int16\<close> scores are
  \<open>16 word\<close>, the \<^verbatim>\<open>int8\<close> depths are \<open>8 word\<close>, Go's \<^verbatim>\<open>int\<close> is \<open>64 word\<close>;
  comparisons of signed values are the signed ones (\<open>\<le>s\<close>, \<open><s\<close>), and \<open>-\<close>, \<open>+\<close>
  wrap around as the machine operations do.
\<close>

subsection \<open>Data model\<close>

type_synonym int16 = "16 word"
type_synonym int8 = "8 word"
type_synonym goint = "64 word"

text \<open>A \<^verbatim>\<open>dragontoothmg.Move\<close> is an unsigned 16-bit token; \<open>0\<close> is the null move.\<close>

type_synonym move = "16 word"

text \<open>The bound type of a table entry (\<^verbatim>\<open>transtable.Exact\<close> and its siblings).\<close>

datatype nodeType = Exact | LowerBound | UpperBound

text \<open>What \<^verbatim>\<open>transtable.Get\<close> returns: found, move, eval, depth, node type.\<close>

type_synonym entry = "bool \<times> move \<times> int16 \<times> int8 \<times> nodeType"

text \<open>
  The collaborators of the search live in other packages (the move generator
  \<^verbatim>\<open>dragontoothmg\<close>, the evaluator \<^verbatim>\<open>eval\<close>, the table \<^verbatim>\<open>transtable\<close>). They are
  parameters of the model: \<open>'b\<close> is the board, \<open>'c\<close> the contents of the
  transposition table. \<^verbatim>\<open>b.Apply(m)\<close> mutates the board and returns a closure that
  undoes the mutation; here \<open>applyMove\<close> gives the board after the move and the
  board before it stays at hand.
\<close>

record ('b, 'c) ext =
  genMoves :: "'b \<Rightarrow> move list"
  applyMove :: "'b \<Rightarrow> move \<Rightarrow> 'b"
  moveString :: "move \<Rightarrow> string"
  moveTo :: "move \<Rightarrow> 8 word"
  whiteAll :: "'b \<Rightarrow> 64 word"
  blackAll :: "'b \<Rightarrow> 64 word"
  evaluate :: "'b \<Rightarrow> int16"
  materialWhite :: "'b \<Rightarrow> goint"
  materialBlack :: "'b \<Rightarrow> goint"
  tget :: "'c \<Rightarrow> 'b \<Rightarrow> entry"
  tput :: "'c \<Rightarrow> 'b \<Rightarrow> move \<Rightarrow> int16 \<Rightarrow> int8 \<Rightarrow> nodeType \<Rightarrow> 'c"

text \<open>
  The mutable state a search worker touches: the table, the shared \<^verbatim>\<open>*stop\<close> flag,
  the global \<^verbatim>\<open>nodeCount\<close>, and the \<^verbatim>\<open>halt\<close> channel. The channel is read by a
  non-blocking \<^verbatim>\<open>select\<close>; \<open>halt\<close> lists the outcomes of the polls still to come
  (\<open>True\<close>: a message was there), and an empty list means that none ever arrives.
\<close>

record 'c sstate =
  cache :: 'c
  stop :: bool
  nodeCount :: goint
  halt :: "bool list"

subsection \<open>Constants and helpers\<close>

definition negInf :: int16 where
  "negInf = - 32768 + 2"

definition posInf :: int16 where
  "posInf = 32767 - 1"

definition QuiesceCutoffDepth :: int8 where
  "QuiesceCutoffDepth = 5"

definition min16 :: "int16 \<Rightarrow> int16 \<Rightarrow> int16" where
  "min16 x y = (if x <s y then x else y)"

definition max16 :: "int16 \<Rightarrow> int16 \<Rightarrow> int16" where
  "max16 x y = (if y <s x then x else y)"

definition isCapture :: "('b, 'c) ext \<Rightarrow> move \<Rightarrow> 'b \<Rightarrow> bool" where
  "isCapture e m b =
     (let toBitboard = push_bit (unat (moveTo e m)) (1 :: 64 word)
      in toBitboard AND whiteAll e b \<noteq> 0 \<or> toBitboard AND blackAll e b \<noteq> 0)"

text \<open>The \<^verbatim>\<open>select\<close> on the halt channel: whether a message was received.\<close>

definition pollHalt :: "'c sstate \<Rightarrow> bool \<times> 'c sstate" where
  "pollHalt s = (case halt s of [] \<Rightarrow> (False, s) | h # hs \<Rightarrow> (h, s\<lparr>halt := hs\<rparr>))"

subsection \<open>Quiescence search\<close>

text \<open>The stand-pat score of \<^verbatim>\<open>quiesce\<close>, and the table after it was looked up.\<close>

definition standPat :: "('b, 'c) ext \<Rightarrow> 'c \<Rightarrow> 'b \<Rightarrow> 'c \<times> int16" where
  "standPat e c b =
     (case tget e c b of (found, _, evalresult, _, ntype) \<Rightarrow>
        if found \<and> ntype = Exact then (c, evalresult)
        else (tput e c b 0 (evaluate e b) 0 Exact, evaluate e b))"

lemma sint_dec8:
  fixes d :: int8
  assumes "\<not> d <s - 5"
  shows "sint (d - 1) = sint d - 1"
proof -
  have "- 128 \<le> sint d - 1" "sint d - 1 < 128"
    using assms sint_lt [of d] by (simp_all add: word_sless_alt)
  then have "signed_take_bit 7 (sint d - 1) = sint d - 1"
    by (intro signed_take_bit_int_eq_self) simp_all
  then show ?thesis
    by (simp add: sint_word_ariths)
qed

function quiesce :: "('b, 'c) ext \<Rightarrow> 'c sstate \<Rightarrow> 'b \<Rightarrow> int16 \<Rightarrow> int16 \<Rightarrow> int8 \<Rightarrow> 'c sstate \<times> int16"
  and quiesceLoop :: "('b, 'c) ext \<Rightarrow> 'c sstate \<Rightarrow> 'b \<Rightarrow> move list \<Rightarrow> int16 \<Rightarrow> int16 \<Rightarrow> int8 \<Rightarrow> 'c sstate \<times> int16"
where
  "quiesce e s b alpha beta depth =
     (let s1 = s\<lparr>nodeCount := nodeCount s + 1\<rparr> in
      if stop s1 then (s1, alpha)
      else case standPat e (cache s1) b of (c2, sp) \<Rightarrow>
        let s2 = s1\<lparr>cache := c2\<rparr> in
        if depth <s - QuiesceCutoffDepth then (s2, sp)
        else if beta \<le>s sp then (s2, beta)
        else let alpha1 = (if alpha <s sp then sp else alpha);
                 moves = genMoves e b
             in if length moves = 0 then (s2, negInf)
                else quiesceLoop e s2 b moves alpha1 beta depth)"
| "quiesceLoop e s b [] alpha beta depth = (s, alpha)"
| "quiesceLoop e s b (m # rest) alpha beta depth =
     (if \<not> isCapture e m b then quiesceLoop e s b rest alpha beta depth
      else case quiesce e s (applyMove e b m) (- beta) (- alpha) (depth - 1) of (s', r) \<Rightarrow>
        let score = - r in
        if beta \<le>s score then (s', beta)
        else quiesceLoop e s' b rest (if alpha <s score then score else alpha) beta depth)"
  by pat_completeness auto
termination
proof (relation "inv_image (less_than <*lex*> less_than)
    (\<lambda>x. case x of
       Inl (e, s, b, alpha, beta, depth) \<Rightarrow> (2 * nat (sint depth + 128) + 1, 0)
     | Inr (e, s, b, ms, alpha, beta, depth) \<Rightarrow> (2 * nat (sint (depth - 1) + 128) + 2, length ms))",
    goal_cases)
  case 1
  show ?case by (intro wf_inv_image wf_lex_prod wf_less_than)
next
  case (2 e s b alpha beta depth s1 c2 sp s2 alpha1 moves)
  then have "\<not> depth <s - 5" by (simp add: QuiesceCutoffDepth_def)
  then have "sint (depth - 1) = sint depth - 1" "- 5 \<le> sint depth"
    by (simp_all add: sint_dec8 word_sless_alt)
  then show ?case by simp
next
  case 3
  then show ?case by simp
next
  case 4
  then show ?case by simp
next
  case 5
  then show ?case by simp
qed

subsection \<open>Alpha-beta search\<close>

text \<open>
  The table probe at the head of \<^verbatim>\<open>ab\<close>: either the stored score and move are
  returned at once (\<open>Inl\<close>), or the search goes on with the window \<open>(alpha, beta)\<close>,
  tightened by the entry where it applies (\<open>Inr\<close>).
\<close>

definition tableWindow :: "entry \<Rightarrow> int8 \<Rightarrow> int16 \<Rightarrow> int16 \<Rightarrow> (int16 \<times> move) + (int16 \<times> int16)" where
  "tableWindow t depth alpha beta =
     (case t of (found, tableMove, tableEval, tableDepth, tableNodeType) \<Rightarrow>
        if found \<and> depth \<le>s tableDepth then
          if tableNodeType = Exact then Inl (tableEval, tableMove)
          else let alpha' = (if tableNodeType = LowerBound then max16 alpha tableEval else alpha);
                   beta' = (if tableNodeType = LowerBound then beta else min16 beta tableEval)
               in if beta' \<le>s alpha' then Inl (tableEval, tableMove) else Inr (alpha', beta')
        else Inr (alpha, beta))"

text \<open>The node type written to the table once the moves are searched.\<close>

definition classify :: "int16 \<Rightarrow> int16 \<Rightarrow> int16 \<Rightarrow> nodeType" where
  "classify alpha0 beta bestVal =
     (if bestVal \<le>s alpha0 then UpperBound
      else if beta \<le>s bestVal then LowerBound
      else Exact)"

text \<open>
  \<^verbatim>\<open>ab\<close> is split where its control flow splits: \<open>ab\<close> is the entry (node count,
  cancellation, table probe), \<open>abSearch\<close> the rest of the body, run with the window
  the probe left, and \<open>abLoop\<close> the loop over the moves, which returns the state,
  \<open>alpha\<close>, \<open>bestVal\<close> and \<open>bestMove\<close> at its exit.
\<close>

function ab :: "('b, 'c) ext \<Rightarrow> 'c sstate \<Rightarrow> 'b \<Rightarrow> int16 \<Rightarrow> int16 \<Rightarrow> int8 \<Rightarrow> 'c sstate \<times> int16 \<times> move"
  and abSearch :: "('b, 'c) ext \<Rightarrow> 'c sstate \<Rightarrow> 'b \<Rightarrow> int16 \<Rightarrow> int16 \<Rightarrow> int8 \<Rightarrow> 'c sstate \<times> int16 \<times> move"
  and abLoop :: "('b, 'c) ext \<Rightarrow> 'c sstate \<Rightarrow> 'b \<Rightarrow> move list \<Rightarrow> int16 \<Rightarrow> int16 \<Rightarrow> int8 \<Rightarrow> int16 \<Rightarrow> move
      \<Rightarrow> 'c sstate \<times> int16 \<times> int16 \<times> move"
where
  "ab e s b alpha beta depth =
     (case pollHalt (s\<lparr>nodeCount := nodeCount s + 1\<rparr>) of (received, s1) \<Rightarrow>
        if received then (s1\<lparr>stop := True\<rparr>, alpha, 0)
        else if stop s1 then (s1, alpha, 0)
        else (case tableWindow (tget e (cache s1) b) depth alpha beta of
                Inl (tableEval, tableMove) \<Rightarrow> (s1, tableEval, tableMove)
              | Inr (alpha', beta') \<Rightarrow> abSearch e s1 b alpha' beta' depth))"
| "abSearch e s b alpha beta depth =
     (if depth = 0 then
        (case quiesce e s b alpha beta depth of (s', r) \<Rightarrow> (s', r, 0))
      else
        let alpha0 = alpha;
            moves = genMoves e b;
            bestMove0 = (if length moves > 0 then hd moves else 0)
        in case abLoop e s b moves alpha beta depth negInf bestMove0 of
             (s', alpha', bestVal, bestMove) \<Rightarrow>
               if stop s' then (s', bestVal, bestMove)
               else (s'\<lparr>cache := tput e (cache s') b bestMove bestVal depth
                                   (classify alpha0 beta bestVal)\<rparr>,
                     bestVal, bestMove))"
| "abLoop e s b [] alpha beta depth bestVal bestMove = (s, alpha, bestVal, bestMove)"
| "abLoop e s b (m # rest) alpha beta depth bestVal bestMove =
     (case ab e s (applyMove e b m) (- beta) (- alpha) (depth - 1) of (s', r, _) \<Rightarrow>
        let score = - r;
            bestMove' = (if bestVal <s score then m else bestMove);
            bestVal' = (if bestVal <s score then score else bestVal);
            alpha' = max16 alpha score
        in if beta \<le>s alpha' then (s', alpha', bestVal', bestMove')
           else abLoop e s' b rest alpha' beta depth bestVal' bestMove')"
  by pat_completeness auto
termination
  apply (relation "inv_image (less_than <*lex*> less_than)
    (\<lambda>x. case x of
       Inl (e, s, b, alpha, beta, depth) \<Rightarrow> (4 * unat depth + 3, 0)
     | Inr (Inl (e, s, b, alpha, beta, depth)) \<Rightarrow> (4 * unat depth + 2, 0)
     | Inr (Inr (e, s, b, ms, alpha, beta, depth, bv, bm)) \<Rightarrow> (4 * unat (depth - 1) + 4, length ms))")
  subgoal by (intro wf_inv_image wf_lex_prod wf_less_than)
  subgoal by simp
  subgoal for e s b alpha beta depth
    using unat_minus_one [of depth] unat_eq_zero [of depth] by simp
  subgoal by simp
  subgoal by simp
  done

subsection \<open>Principal variation from the table\<close>

text \<open>
  The inner loop of \<^verbatim>\<open>lookupPv\<close>: is the notation of the table's move that of one
  of the legal moves?
\<close>

primrec moveListed :: "('b, 'c) ext \<Rightarrow> move \<Rightarrow> move list \<Rightarrow> bool" where
  "moveListed e tableMove [] = False"
| "moveListed e tableMove (mv # rest) =
     (if moveString e mv = moveString e tableMove then True else moveListed e tableMove rest)"

lemma sint_dec64:
  fixes i :: goint
  assumes "0 \<le>s i"
  shows "sint (i - 1) = sint i - 1"
proof -
  have "- (2 ^ 63) \<le> sint i - 1" "sint i - 1 < 2 ^ 63"
    using assms sint_lt [of i] by (simp_all add: word_sle_eq)
  then have "signed_take_bit 63 (sint i - 1) = sint i - 1"
    by (intro signed_take_bit_int_eq_self) simp_all
  then show ?thesis
    by (simp add: sint_word_ariths)
qed

text \<open>
  The loop \<^verbatim>\<open>for i := depth; i >= 0; i--\<close> of \<^verbatim>\<open>lookupPv\<close>, on the board after the
  start move. The table is only read. The last two branches both return the line
  as it stands; the second one also prints a diagnostic, which is not modelled.
\<close>

function lookupPvLoop :: "('b, 'c) ext \<Rightarrow> 'c \<Rightarrow> 'b \<Rightarrow> string \<Rightarrow> goint \<Rightarrow> string" where
  "lookupPvLoop e c b pv i =
     (if 0 \<le>s i then
        (case tget e c b of (found, tableMove, tableEval, depth, _) \<Rightarrow>
           if \<not> found \<or> depth = 0 then pv
           else if moveListed e tableMove (genMoves e b) then
             lookupPvLoop e c (applyMove e b tableMove) (pv @ '' '' @ moveString e tableMove) (i - 1)
           else if tableMove = 0 \<and> (tableEval \<le>s negInf \<or> posInf \<le>s tableEval) then pv
           else pv)
      else pv)"
  by pat_completeness auto
termination
  apply (relation "measure (\<lambda>(e, c, b, pv, i). nat (sint i + 1))")
  subgoal by simp
  subgoal for e c b pv i
    using sint_dec64 [of i] by (simp add: word_sle_eq)
  done

definition lookupPv :: "('b, 'c) ext \<Rightarrow> 'c \<Rightarrow> 'b \<Rightarrow> move \<Rightarrow> goint \<Rightarrow> string" where
  "lookupPv e c b startmove depth =
     lookupPvLoop e c (applyMove e b startmove) (moveString e startmove) depth"

text \<open>
  The moves the loop of \<^verbatim>\<open>lookupPv\<close> applies to its board, in order: the same
  recursion, collecting the moves instead of their notation.
\<close>

function pvMoves :: "('b, 'c) ext \<Rightarrow> 'c \<Rightarrow> 'b \<Rightarrow> goint \<Rightarrow> move list" where
  "pvMoves e c b i =
     (if 0 \<le>s i then
        (case tget e c b of (found, tableMove, tableEval, depth, _) \<Rightarrow>
           if \<not> found \<or> depth = 0 then []
           else if moveListed e tableMove (genMoves e b) then
             tableMove # pvMoves e c (applyMove e b tableMove) (i - 1)
           else [])
      else [])"
  by pat_completeness auto
termination
  apply (relation "measure (\<lambda>(e, c, b, i). nat (sint i + 1))")
  subgoal by simp
  subgoal for e c b i
    using sint_dec64 [of i] by (simp add: word_sle_eq)
  done

text \<open>The notation of a line: the moves' notations, each after a space.\<close>

definition pvTail :: "('b, 'c) ext \<Rightarrow> move list \<Rightarrow> string" where
  "pvTail e ms = concat (map (\<lambda>m. '' '' @ moveString e m) ms)"

text \<open>
  A line is playable from a board when each move passes the check of \<^verbatim>\<open>lookupPv\<close>
  on the board it is applied to; it is legal when each move is one of the moves
  generated there.
\<close>

primrec playableLine :: "('b, 'c) ext \<Rightarrow> 'b \<Rightarrow> move list \<Rightarrow> bool" where
  "playableLine e b [] = True"
| "playableLine e b (m # ms) =
     (moveListed e m (genMoves e b) \<and> playableLine e (applyMove e b m) ms)"

primrec legalLine :: "('b, 'c) ext \<Rightarrow> 'b \<Rightarrow> move list \<Rightarrow> bool" where
  "legalLine e b [] = True"
| "legalLine e b (m # ms) =
     (List.member (genMoves e b) m \<and> legalLine e (applyMove e b m) ms)"

subsection \<open>Time allowance\<close>

text \<open>
  \<^verbatim>\<open>EstimateHalfmovesLeft\<close> computes in \<^verbatim>\<open>float32\<close>. The arithmetic of that type
  is a parameter: \<open>'f\<close> is the type of its values, \<open>f32_lit\<close> the conversion of an
  integer constant, \<open>f32_of_int\<close> and \<open>int_of_f32\<close> the conversions from and to
  \<^verbatim>\<open>int\<close>.
\<close>

record 'f float32ops =
  f32_of_int :: "goint \<Rightarrow> 'f"
  f32_lit :: "nat \<Rightarrow> 'f"
  f32_add :: "'f \<Rightarrow> 'f \<Rightarrow> 'f"
  f32_sub :: "'f \<Rightarrow> 'f \<Rightarrow> 'f"
  f32_mul :: "'f \<Rightarrow> 'f \<Rightarrow> 'f"
  f32_div :: "'f \<Rightarrow> 'f \<Rightarrow> 'f"
  int_of_f32 :: "'f \<Rightarrow> goint"

definition EstimateHalfmovesLeft :: "'f float32ops \<Rightarrow> ('b, 'c) ext \<Rightarrow> 'b \<Rightarrow> goint" where
  "EstimateHalfmovesLeft fl e b =
     (let totalMaterial = materialWhite e b + materialBlack e b;
          m = f32_of_int fl totalMaterial
      in if totalMaterial <s 2000 then
           int_of_f32 fl (f32_add fl (f32_div fl m (f32_lit fl 100)) (f32_lit fl 10))
         else if totalMaterial \<le>s 6000 then
           int_of_f32 fl (f32_add fl
             (f32_div fl (f32_mul fl (f32_div fl m (f32_lit fl 100)) (f32_lit fl 3)) (f32_lit fl 8))
             (f32_lit fl 22))
         else
           int_of_f32 fl (f32_sub fl
             (f32_div fl (f32_mul fl (f32_div fl m (f32_lit fl 100)) (f32_lit fl 5)) (f32_lit fl 4))
             (f32_lit fl 30)))"

text \<open>
  Go's \<^verbatim>\<open>/\<close> on \<^verbatim>\<open>int\<close>: the quotient truncated towards zero, wrapping around in
  the one case that overflows (the most negative value divided by \<open>-1\<close>). A
  division by zero panics.
\<close>

definition goDiv :: "goint \<Rightarrow> goint \<Rightarrow> goint" where
  "goDiv x y = word_of_int (sint x sdiv sint y)"

datatype panic = DivideByZero

definition CalculateAllowedTime ::
  "'f float32ops \<Rightarrow> ('b, 'c) ext \<Rightarrow> 'b \<Rightarrow> goint \<Rightarrow> goint \<Rightarrow> goint \<Rightarrow> goint \<Rightarrow> panic + goint" where
  "CalculateAllowedTime fl e b ourtime opptime ourinc oppinc =
     (let halfmoves = EstimateHalfmovesLeft fl e b in
      if halfmoves = 0 then Inl DivideByZero
      else let result = goDiv ourtime halfmoves in
        if ourtime <s 0 \<or> result <s 0 then Inr 100 else Inr result)"

subsection \<open>A small instance\<close>

text \<open>
  A three-position game on which the definitions can be run: position \<open>0\<close> has the
  single move \<open>1\<close>, which leads to position \<open>1\<close>; position \<open>1\<close> has the single move
  \<open>2\<close>, which leads to position \<open>3\<close>; position \<open>3\<close> has no move. No move is a
  capture. The notation of a move is a run of as many \<open>x\<close> as its number. The table
  is an association list, the newest entry first; a miss reads as not found.
\<close>

definition toyExt :: "(nat, (nat \<times> entry) list) ext" where
  "toyExt = \<lparr>
     genMoves = (\<lambda>b. if b = 0 then [1] else if b = 1 then [2] else []),
     applyMove = (\<lambda>b m. b + unat m),
     moveString = (\<lambda>m. replicate (unat m) (CHR ''x'')),
     moveTo = (\<lambda>m. 0),
     whiteAll = (\<lambda>b. 0),
     blackAll = (\<lambda>b. 0),
     evaluate = (\<lambda>b. if b = 1 then - 3 else 0),
     materialWhite = (\<lambda>b. 2000),
     materialBlack = (\<lambda>b. 2000),
     tget = (\<lambda>c b. case map_of c b of None \<Rightarrow> (False, 0, 0, 0, Exact) | Some t \<Rightarrow> t),
     tput = (\<lambda>c b m v d t. (b, (True, m, v, d, t)) # c) \<rparr>"

text \<open>A search state with the given table and outcomes of the polls of \<^verbatim>\<open>halt\<close>.\<close>

definition toyState :: "(nat \<times> entry) list \<Rightarrow> bool list \<Rightarrow> (nat \<times> entry) list sstate" where
  "toyState c hs = \<lparr> cache = c, stop = False, nodeCount = 0, halt = hs \<rparr>"

text \<open>
  Exact rational arithmetic in the place of \<^verbatim>\<open>float32\<close>, for running the time
  allowance on an example; the conversion to \<^verbatim>\<open>int\<close> truncates towards zero.
\<close>

definition exactArith :: "rat float32ops" where
  "exactArith = \<lparr>
     f32_of_int = (\<lambda>w. of_int (sint w)),
     f32_lit = of_nat,
     f32_add = (\<lambda>x y. x + y),
     f32_sub = (\<lambda>x y. x - y),
     f32_mul = (\<lambda>x y. x * y),
     f32_div = (\<lambda>x y. x / y),
     int_of_f32 = (\<lambda>x. word_of_int (if x < 0 then - \<lfloor>- x\<rfloor> else \<lfloor>x\<rfloor>)) \<rparr>"

section \<open>Properties\<close>

subsection \<open>Helper facts\<close>

lemmas toy_simps = toyExt_def toyState_def pollHalt_def tableWindow_def max16_def min16_def
  classify_def standPat_def negInf_def posInf_def QuiesceCutoffDepth_def Let_def
  word_sless_alt word_sle_eq

declare lookupPvLoop.simps [simp del] pvMoves.simps [simp del]

lemma lookupPvLoop_pvMoves:
  "lookupPvLoop e c b pv i = pv @ pvTail e (pvMoves e c b i)"
proof (induction e c b pv i rule: lookupPvLoop.induct)
  case (1 e c b pv i)
  show ?case
    apply (subst lookupPvLoop.simps)
    apply (subst pvMoves.simps)
    using "1.IH" by (auto simp: pvTail_def split: prod.splits)
qed

lemma pvMoves_playable: "playableLine e b (pvMoves e c b i)"
proof (induction e c b i rule: pvMoves.induct)
  case (1 e c b i)
  show ?case
    apply (subst pvMoves.simps)
    using "1.IH" by (auto split: prod.splits)
qed

lemma moveListed_member:
  "inj (moveString e) \<Longrightarrow> moveListed e m ms \<Longrightarrow> m \<in> set ms"
  by (induction ms) (auto split: if_splits dest: injD)

lemma playable_legal:
  "inj (moveString e) \<Longrightarrow> playableLine e b ms \<Longrightarrow> legalLine e b ms"
  by (induction ms arbitrary: b) (auto dest: moveListed_member)

lemma lookupPvLoop_illegal:
  assumes "0 \<le>s i" "tget e c b = (True, tableMove, tableEval, tableDepth, nt)"
    "tableDepth \<noteq> 0" "\<not> moveListed e tableMove (genMoves e b)"
  shows "lookupPvLoop e c b pv i = pv"
  using assms by (subst lookupPvLoop.simps) simp

lemma pvMoves_miss:
  assumes "\<not> fst (tget e c b)"
  shows "pvMoves e c b i = []"
  using assms by (subst pvMoves.simps) (auto split: prod.splits)

lemma toy_notation_inj: "inj (moveString toyExt)"
  by (auto simp: inj_def toyExt_def word_unat_eq_iff dest!: arg_cong [where f = length])

lemma sdiv_abs_le: "\<bar>(k::int) sdiv l\<bar> \<le> \<bar>k\<bar>"
proof -
  have nn: "0 \<le> \<bar>k\<bar> div \<bar>l\<bar>"
    by (cases "l = 0") (simp_all add: pos_imp_zdiv_nonneg_iff)
  have le: "\<bar>k\<bar> div \<bar>l\<bar> \<le> \<bar>k\<bar>"
  proof (cases "l = 0")
    case True
    then show ?thesis by simp
  next
    case False
    then show ?thesis
      using zdiv_mono2 [of "\<bar>k\<bar>" 1 "\<bar>l\<bar>"] by simp
  qed
  have "\<bar>k sdiv l\<bar> = \<bar>sgn k\<bar> * \<bar>sgn l\<bar> * \<bar>\<bar>k\<bar> div \<bar>l\<bar>\<bar>"
    by (simp add: signed_divide_int_def abs_mult)
  also have "\<dots> = \<bar>sgn k\<bar> * \<bar>sgn l\<bar> * (\<bar>k\<bar> div \<bar>l\<bar>)"
    using nn by simp
  also have "\<dots> \<le> 1 * (\<bar>k\<bar> div \<bar>l\<bar>)"
    using nn by (intro mult_right_mono) (simp_all add: abs_sgn_eq)
  finally show ?thesis
    using le by simp
qed

lemma sint_goDiv:
  assumes "\<not> x <s 0"
  shows "sint (goDiv x y) = sint x sdiv sint y"
proof -
  have x: "0 \<le> sint x" "sint x < 2 ^ 63"
    using assms sint_lt [of x] by (simp_all add: word_sless_alt)
  have "\<bar>sint x sdiv sint y\<bar> \<le> \<bar>sint x\<bar>" by (rule sdiv_abs_le)
  with x have "- (2 ^ 63) \<le> sint x sdiv sint y" "sint x sdiv sint y < 2 ^ 63"
    by linarith+
  then have "signed_take_bit 63 (sint x sdiv sint y) = sint x sdiv sint y"
    by (intro signed_take_bit_int_eq_self) simp_all
  then show ?thesis
    by (simp add: goDiv_def sint_sbintrunc')
qed

lemma toy_halfmoves: "EstimateHalfmovesLeft exactArith toyExt 0 = 37"
  by (simp add: EstimateHalfmovesLeft_def exactArith_def toyExt_def word_sless_alt word_sle_eq)

subsection \<open>Alpha-beta search: the node type written to the table\<close>

text \<open>
  Claim C1, as stated: after its move loop, with the stop flag unset, \<^verbatim>\<open>ab\<close>
  classifies \<open>bestVal\<close> against the value \<open>alpha\<close> had at entry, before any tightening
  by the table, and against the caller's \<open>beta\<close>. The code reads \<open>alpha0\<close> after the
  table probe. Counterexample: position \<open>0\<close> of the small instance holds a
  lower-bound entry of score 5 and is searched with the window \<open>(0, 10)\<close> at depth 1.
  The search ends with \<open>bestVal = 5\<close> and the stop flag unset. Against the window at
  entry the result would be Exact; the entry written is an upper bound.
\<close>

theorem ab_classify_entry_window_counterexample:
  "tget toyExt (cache (fst (ab toyExt (toyState [(0, (True, 1, 5, 1, LowerBound))] []) 0 0 10 1))) 0
     = (True, 1, 5, 1, UpperBound)
   \<and> snd (ab toyExt (toyState [(0, (True, 1, 5, 1, LowerBound))] []) 0 0 10 1) = (5, 1)
   \<and> \<not> stop (fst (ab toyExt (toyState [(0, (True, 1, 5, 1, LowerBound))] []) 0 0 10 1))
   \<and> classify 0 10 5 = Exact"
  by (simp add: toy_simps)

text \<open>
  Claim C1, amended: when the entry checks of \<^verbatim>\<open>ab\<close> pass (no message on \<^verbatim>\<open>halt\<close>,
  stop flag unset), the table probe leaves the window \<open>(alpha, beta)\<close>, the depth is
  not 0 and the move loop ends with the stop flag unset, then \<^verbatim>\<open>ab\<close> classifies
  \<open>bestVal\<close> against that window, the one after any tightening by the table:
  \<open>bestVal \<le> alpha\<close> gives UpperBound, \<open>bestVal \<ge> beta\<close> gives LowerBound, anything
  else Exact; it writes \<open>(bestMove, bestVal, depth, node type)\<close> to the table and
  returns \<open>bestVal\<close> and \<open>bestMove\<close>. Where the table has no entry for the position,
  the window is the one \<^verbatim>\<open>ab\<close> was entered with.
\<close>

theorem ab_classify_probed_window:
  assumes "pollHalt (s0\<lparr>nodeCount := nodeCount s0 + 1\<rparr>) = (False, s)"
    and "\<not> stop s"
    and "tableWindow (tget e (cache s) b) depth alphaIn betaIn = Inr (alpha, beta)"
    and "depth \<noteq> 0"
    and "abLoop e s b (genMoves e b) alpha beta depth negInf
           (if length (genMoves e b) > 0 then hd (genMoves e b) else 0)
         = (s', alpha', bestVal, bestMove)"
    and "\<not> stop s'"
  shows "ab e s0 b alphaIn betaIn depth =
           (s'\<lparr>cache := tput e (cache s') b bestMove bestVal depth
                (if bestVal \<le>s alpha then UpperBound
                 else if beta \<le>s bestVal then LowerBound else Exact)\<rparr>, bestVal, bestMove)
         \<and> tableWindow (False, tm, te, td, nt) depth alphaIn betaIn = Inr (alphaIn, betaIn)"
  using assms by (simp add: Let_def classify_def tableWindow_def)

theorem ab_classify_probed_window_witness:
  "ab toyExt (toyState [(0, (True, 1, 5, 1, LowerBound))] []) 0 0 10 1 =
     (\<lparr>cache = [(0, (True, 1, 5, 1, UpperBound)), (1, (True, 0, - 3, 0, Exact)),
                (0, (True, 1, 5, 1, LowerBound))],
       stop = False, nodeCount = 3, halt = []\<rparr>, 5, 1)"
proof -
  have "ab toyExt (toyState [(0, (True, 1, 5, 1, LowerBound))] []) 0 0 10 1 =
      (\<lparr>cache = [(1, (True, 0, - 3, 0, Exact)), (0, (True, 1, 5, 1, LowerBound))],
         stop = False, nodeCount = 3, halt = []\<rparr>
         \<lparr>cache := tput toyExt
            (cache \<lparr>cache = [(1, (True, 0, - 3, 0, Exact)), (0, (True, 1, 5, 1, LowerBound))],
               stop = False, nodeCount = 3, halt = []\<rparr>) 0 1 5 1
            (if (5 :: int16) \<le>s 5 then UpperBound
             else if (10 :: int16) \<le>s 5 then LowerBound else Exact)\<rparr>, 5, 1)
    \<and> tableWindow (False, 0, 0, 0, Exact) 1 0 10 = Inr (0, 10)"
    by (rule ab_classify_probed_window
        [where s = "\<lparr>cache = [(0, (True, 1, 5, 1, LowerBound))], stop = False,
                     nodeCount = 1, halt = []\<rparr>" and alpha' = 5])
      (simp_all add: toy_simps)
  then show ?thesis
    by (simp add: toyExt_def word_sle_eq)
qed

subsection \<open>Alpha-beta search: the table probe\<close>

text \<open>
  Claim C2: \<^verbatim>\<open>ab\<close> consults the table once its cancellation checks have passed (no
  message on \<^verbatim>\<open>halt\<close>, stop flag unset). For a position whose entry is found with a
  stored depth at least the requested one: an Exact entry makes \<^verbatim>\<open>ab\<close> return the
  stored score and move at once, the state untouched by anything but the node count
  and the poll; a LowerBound entry raises \<open>alpha\<close> to \<open>max16 alpha tableEval\<close>, which is
  at least \<open>alpha\<close> and at least the stored score; an UpperBound entry (any other
  node type) lowers \<open>beta\<close> to \<open>min16 beta tableEval\<close>, at most \<open>beta\<close> and at most the
  stored score; and when after that \<open>alpha \<ge> beta\<close>, \<^verbatim>\<open>ab\<close> returns the stored score
  and move, else it searches on with the adjusted window.
\<close>

theorem ab_table_probe:
  assumes "pollHalt (s0\<lparr>nodeCount := nodeCount s0 + 1\<rparr>) = (False, s)"
    and "\<not> stop s"
    and "tget e (cache s) b = (True, tableMove, tableEval, tableDepth, nt)"
    and "depth \<le>s tableDepth"
  shows "ab e s0 b alpha beta depth =
           (case nt of
              Exact \<Rightarrow> (s, tableEval, tableMove)
            | LowerBound \<Rightarrow>
                if beta \<le>s max16 alpha tableEval then (s, tableEval, tableMove)
                else abSearch e s b (max16 alpha tableEval) beta depth
            | UpperBound \<Rightarrow>
                if min16 beta tableEval \<le>s alpha then (s, tableEval, tableMove)
                else abSearch e s b alpha (min16 beta tableEval) depth)
         \<and> alpha \<le>s max16 alpha tableEval \<and> tableEval \<le>s max16 alpha tableEval
         \<and> min16 beta tableEval \<le>s beta \<and> min16 beta tableEval \<le>s tableEval"
  using assms
  by (cases nt)
    (auto simp add: tableWindow_def Let_def max16_def min16_def word_sle_eq word_sless_alt
      simp del: abSearch.simps)

theorem ab_table_probe_witness:
  "ab toyExt (toyState [(0, (True, 7, 42, 3, Exact))] []) 0 (- 10) 10 2 =
     (\<lparr>cache = [(0, (True, 7, 42, 3, Exact))], stop = False, nodeCount = 1, halt = []\<rparr>, 42, 7)
   \<and> ab toyExt (toyState [(0, (True, 7, 12, 3, LowerBound))] []) 0 (- 10) 10 2 =
     (\<lparr>cache = [(0, (True, 7, 12, 3, LowerBound))], stop = False, nodeCount = 1, halt = []\<rparr>, 12, 7)
   \<and> ab toyExt (toyState [(0, (True, 7, - 12, 3, UpperBound))] []) 0 (- 10) 10 2 =
     (\<lparr>cache = [(0, (True, 7, - 12, 3, UpperBound))], stop = False, nodeCount = 1, halt = []\<rparr>, - 12, 7)"
proof -
  have a: "ab toyExt (toyState [(0, (True, 7, 42, 3, Exact))] []) 0 (- 10) 10 2 =
     (\<lparr>cache = [(0, (True, 7, 42, 3, Exact))], stop = False, nodeCount = 1, halt = []\<rparr>, 42, 7)"
    using ab_table_probe [of "toyState [(0, (True, 7, 42, 3, Exact))] []"
        "\<lparr>cache = [(0, (True, 7, 42, 3, Exact))], stop = False, nodeCount = 1, halt = []\<rparr>"
        toyExt 0 7 42 3 Exact 2 "- 10" 10]
    by (simp add: toy_simps del: ab.simps)
  have b: "ab toyExt (toyState [(0, (True, 7, 12, 3, LowerBound))] []) 0 (- 10) 10 2 =
     (\<lparr>cache = [(0, (True, 7, 12, 3, LowerBound))], stop = False, nodeCount = 1, halt = []\<rparr>, 12, 7)"
    using ab_table_probe [of "toyState [(0, (True, 7, 12, 3, LowerBound))] []"
        "\<lparr>cache = [(0, (True, 7, 12, 3, LowerBound))], stop = False, nodeCount = 1, halt = []\<rparr>"
        toyExt 0 7 12 3 LowerBound 2 "- 10" 10]
    by (simp add: toy_simps del: ab.simps)
  have c: "ab toyExt (toyState [(0, (True, 7, - 12, 3, UpperBound))] []) 0 (- 10) 10 2 =
     (\<lparr>cache = [(0, (True, 7, - 12, 3, UpperBound))], stop = False, nodeCount = 1, halt = []\<rparr>, - 12, 7)"
    using ab_table_probe [of "toyState [(0, (True, 7, - 12, 3, UpperBound))] []"
        "\<lparr>cache = [(0, (True, 7, - 12, 3, UpperBound))], stop = False, nodeCount = 1, halt = []\<rparr>"
        toyExt 0 7 "- 12" 3 UpperBound 2 "- 10" 10]
    by (simp add: toy_simps del: ab.simps)
  from a b c show ?thesis by simp
qed

subsection \<open>Alpha-beta search: cancellation during the move loop\<close>

text \<open>
  Claim C3: when the entry checks of \<^verbatim>\<open>ab\<close> pass (so the stop flag is unset when the
  move loop starts) and the stop flag is set when the loop ends, \<^verbatim>\<open>ab\<close> returns
  \<open>bestVal\<close> and \<open>bestMove\<close> as the loop left them, and the state it returns is the
  state at the end of the loop: nothing is written to the table for this node.
\<close>

theorem ab_stop_no_table_write:
  assumes "pollHalt (s0\<lparr>nodeCount := nodeCount s0 + 1\<rparr>) = (False, s)"
    and "\<not> stop s"
    and "tableWindow (tget e (cache s) b) depth alphaIn betaIn = Inr (alpha, beta)"
    and "depth \<noteq> 0"
    and "abLoop e s b (genMoves e b) alpha beta depth negInf
           (if length (genMoves e b) > 0 then hd (genMoves e b) else 0)
         = (s', alpha', bestVal, bestMove)"
    and "stop s'"
  shows "ab e s0 b alphaIn betaIn depth = (s', bestVal, bestMove)"
  using assms by (simp add: Let_def)

theorem ab_stop_no_table_write_witness:
  "ab toyExt (toyState [] [False, True]) 0 (- 10) 10 1 =
     (\<lparr>cache = [], stop = True, nodeCount = 2, halt = []\<rparr>, 10, 1)"
  by (rule ab_stop_no_table_write
      [where s = "\<lparr>cache = [], stop = False, nodeCount = 1, halt = [True]\<rparr>"
        and alpha = "- 10" and beta = 10 and alpha' = 10])
    (simp_all add: toy_simps)

subsection \<open>The score sentinels\<close>

text \<open>
  Claim C4, as stated: both sentinels lie at least 2 units inside the range of the
  score type, so \<open>posInf \<le> 32767 - 2\<close>. Counterexample: \<open>posInf\<close> is
  \<^verbatim>\<open>math.MaxInt16 - 1\<close>, one unit below the maximum.
\<close>

theorem posInf_two_units_inside_counterexample:
  "\<not> sint posInf \<le> 32767 - 2"
  by (simp add: posInf_def)

text \<open>
  Claim C4, amended: \<open>negInf\<close> is the minimum of the score type plus 2 and \<open>posInf\<close>
  the maximum minus 1 (so \<open>negInf = - posInf\<close>); negating either sentinel does not
  overflow, and neither does moving either sentinel by 1 in either direction, in
  particular increasing its magnitude by 1.
\<close>

theorem sentinels_negate_and_step_without_overflow:
  "sint negInf = - 32768 + 2 \<and> sint posInf = 32767 - 1
   \<and> sint (- negInf) = - sint negInf \<and> sint (- posInf) = - sint posInf
   \<and> sint (negInf - 1) = sint negInf - 1 \<and> sint (posInf + 1) = sint posInf + 1
   \<and> sint (negInf + 1) = sint negInf + 1 \<and> sint (posInf - 1) = sint posInf - 1"
  by (simp add: negInf_def posInf_def)

subsection \<open>Quiescence search without legal moves\<close>

text \<open>
  Claim C5: in \<^verbatim>\<open>quiesce\<close>, when the stop flag is unset, the depth is not below
  \<open>- QuiesceCutoffDepth\<close>, the stand-pat score is below \<open>beta\<close> and the position has
  no legal move at all, the result is \<open>negInf\<close> (after the node count went up and
  the stand-pat score was stored where the table had no exact entry).
\<close>

theorem quiesce_no_legal_moves:
  assumes "\<not> stop s"
    and "\<not> depth <s - QuiesceCutoffDepth"
    and "standPat e (cache s) b = (c2, sp)"
    and "sp <s beta"
    and "genMoves e b = []"
  shows "quiesce e s b alpha beta depth = (s\<lparr>nodeCount := nodeCount s + 1, cache := c2\<rparr>, negInf)"
proof -
  have "\<not> beta \<le>s sp"
    using assms(4) by (simp add: word_sle_eq word_sless_alt)
  then show ?thesis
    using assms by (simp add: Let_def)
qed

theorem quiesce_no_legal_moves_witness:
  "quiesce toyExt (toyState [] []) 3 (- 10) 10 0 =
     (\<lparr>cache = [(3, (True, 0, 0, 0, Exact))], stop = False, nodeCount = 1, halt = []\<rparr>, - 32766)"
proof -
  have "quiesce toyExt (toyState [] []) 3 (- 10) 10 0 =
      ((toyState [] [])\<lparr>nodeCount := nodeCount (toyState [] []) + 1,
         cache := [(3, (True, 0, 0, 0, Exact))]\<rparr>, negInf)"
    by (rule quiesce_no_legal_moves [where sp = 0]) (simp_all add: toy_simps)
  then show ?thesis
    by (simp add: toyState_def negInf_def)
qed

subsection \<open>The principal variation\<close>

text \<open>
  Claim C6: the string \<^verbatim>\<open>lookupPv\<close> returns is the notation of the start move
  followed by the notations of the moves its loop applied, each after a space, and
  each of these moves passed the legality check on the position it was applied to,
  in sequence from the position after the start move: its notation is that of a
  move generated there. Where the notation tells moves apart, each is one of the
  moves generated there. A table move that fails the check ends the loop, and the
  line is returned as it stands.
\<close>

theorem lookupPv_moves_legal:
  "lookupPv e c b startmove depth =
     moveString e startmove @ pvTail e (pvMoves e c (applyMove e b startmove) depth)
   \<and> playableLine e (applyMove e b startmove) (pvMoves e c (applyMove e b startmove) depth)
   \<and> (inj (moveString e) \<longrightarrow>
        legalLine e (applyMove e b startmove) (pvMoves e c (applyMove e b startmove) depth))
   \<and> (0 \<le>s i \<and> tget e c b' = (True, tableMove, tableEval, tableDepth, nt) \<and> tableDepth \<noteq> 0
        \<and> \<not> moveListed e tableMove (genMoves e b') \<longrightarrow> lookupPvLoop e c b' pv i = pv)"
  using lookupPvLoop_illegal [of i e c b' tableMove tableEval tableDepth nt pv]
  by (simp add: lookupPv_def lookupPvLoop_pvMoves [of e c "applyMove e b startmove"]
      pvMoves_playable playable_legal)

theorem lookupPv_moves_legal_witness:
  "lookupPv toyExt [(1, (True, 2, 0, 1, Exact)), (3, (True, 9, 0, 1, Exact))] 0 1 5 = ''x xx''
   \<and> pvMoves toyExt [(1, (True, 2, 0, 1, Exact)), (3, (True, 9, 0, 1, Exact))] 1 5 = [2]
   \<and> legalLine toyExt 1 [2]
   \<and> lookupPvLoop toyExt [(1, (True, 2, 0, 1, Exact)), (3, (True, 9, 0, 1, Exact))] 3 ''x xx'' 4
       = ''x xx''"
proof -
  have ap: "applyMove toyExt 0 1 = 1"
    by (simp add: toyExt_def)
  have n1: "moveString toyExt 1 = ''x''"
    by (simp add: toyExt_def)
  have n2: "moveString toyExt 2 = ''xx''"
    by (simp add: toyExt_def) (simp add: numeral_2_eq_2)
  have moves: "pvMoves toyExt [(1, (True, 2, 0, 1, Exact)), (3, (True, 9, 0, 1, Exact))] 1 5 = [2]"
    by (simp add: pvMoves.simps toyExt_def word_sle_eq)
  have hyp: "0 \<le>s (4 :: goint)
      \<and> tget toyExt [(1, (True, 2, 0, 1, Exact)), (3, (True, 9, 0, 1, Exact))] 3
          = (True, 9, 0, 1, Exact)
      \<and> (1 :: int8) \<noteq> 0 \<and> \<not> moveListed toyExt 9 (genMoves toyExt 3)"
    by (simp add: toyExt_def word_sle_eq)
  show ?thesis
    using lookupPv_moves_legal [of toyExt "[(1, (True, 2, 0, 1, Exact)), (3, (True, 9, 0, 1, Exact))]"
        0 1 5 4 3 9 0 1 Exact "''x xx''"] toy_notation_inj hyp ap moves n1 n2
    by (simp add: pvTail_def)
qed

text \<open>
  Claim C10: the string \<^verbatim>\<open>lookupPv\<close> returns begins with the notation of the start
  move, whatever the board, the table and the depth are, and no legality check
  stands before it; so the line is empty only if that notation is, and when the
  table has no entry for the position after the start move the line is the start
  move's notation alone.
\<close>

theorem lookupPv_begins_with_startmove:
  "prefix (moveString e startmove) (lookupPv e c b startmove depth)
   \<and> (moveString e startmove \<noteq> [] \<longrightarrow> lookupPv e c b startmove depth \<noteq> [])
   \<and> (\<not> fst (tget e c (applyMove e b startmove)) \<longrightarrow>
        lookupPv e c b startmove depth = moveString e startmove)"
  by (auto simp: lookupPv_def lookupPvLoop_pvMoves pvMoves_miss pvTail_def)

theorem lookupPv_begins_with_startmove_witness:
  "moveString toyExt 1 = ''x'' \<and> \<not> fst (tget toyExt [] (applyMove toyExt 0 1))
   \<and> lookupPv toyExt [] 0 1 5 = ''x'' \<and> lookupPv toyExt [] 0 1 5 \<noteq> []"
proof -
  have hyp: "moveString toyExt 1 = ''x''" "\<not> fst (tget toyExt [] (applyMove toyExt 0 1))"
    by (simp_all add: toyExt_def)
  then show ?thesis
    using lookupPv_begins_with_startmove [of toyExt 1 "[]" 0 5] by simp
qed

subsection \<open>The time allowance\<close>

text \<open>
  Claim C8: when the estimate of the half-moves left is not 0 (a division by zero
  panics), \<^verbatim>\<open>CalculateAllowedTime\<close> returns the clock time divided by the estimate,
  and the fixed 100 when the clock time is negative or that quotient is. For a
  clock time that is not negative, Go's quotient is the quotient of the two
  integers truncated towards zero.
\<close>

theorem CalculateAllowedTime_quotient_or_fallback:
  assumes "EstimateHalfmovesLeft fl e b \<noteq> 0"
  shows "CalculateAllowedTime fl e b ourtime opptime ourinc oppinc =
           Inr (if ourtime <s 0 \<or> goDiv ourtime (EstimateHalfmovesLeft fl e b) <s 0 then 100
                else goDiv ourtime (EstimateHalfmovesLeft fl e b))
         \<and> (if ourtime <s 0 then True
             else sint (goDiv ourtime (EstimateHalfmovesLeft fl e b)) =
                  sint ourtime sdiv sint (EstimateHalfmovesLeft fl e b))"
  using assms by (simp add: CalculateAllowedTime_def Let_def sint_goDiv)

theorem CalculateAllowedTime_quotient_or_fallback_witness:
  "EstimateHalfmovesLeft exactArith toyExt 0 \<noteq> 0
   \<and> CalculateAllowedTime exactArith toyExt 0 7400 0 0 0 = Inr 200
   \<and> CalculateAllowedTime exactArith toyExt 0 (- 7400) 0 0 0 = Inr 100"
  using CalculateAllowedTime_quotient_or_fallback [of exactArith toyExt 0 7400 0 0 0]
    CalculateAllowedTime_quotient_or_fallback [of exactArith toyExt 0 "- 7400" 0 0 0]
  by (simp add: toy_halfmoves goDiv_def signed_divide_int_def word_sless_alt)

text \<open>
  Claim C9: the result of \<^verbatim>\<open>CalculateAllowedTime\<close> does not depend on the two
  increments: two calls that differ only in \<open>ourinc\<close> and \<open>oppinc\<close> return the same.
\<close>

theorem CalculateAllowedTime_ignores_increments:
  "CalculateAllowedTime fl e b ourtime opptime ourinc oppinc =
   CalculateAllowedTime fl e b ourtime opptime ourinc' oppinc'"
  by (simp add: CalculateAllowedTime_def)

end
